theory Spec2Isabelle
  imports Complex_Main "HOL-Library.AList"
begin

section \<open>Python strings\<close>

text \<open>
  A Python \<open>str\<close> is modelled as a \<open>string\<close> whose characters are the code points
  0..255 (Latin-1). On this range \<open>str.lower\<close> maps one character to one character,
  \<open>str.isspace\<close> (which \<open>str.strip\<close> and the regular expression class \<open>\s\<close> use) holds
  for tab..carriage return, the separators 0x1c..0x1f, space, 0x85 and 0xa0, and the
  class \<open>\d\<close> is \<open>0-9\<close>.

  Python floats are modelled by exact real arithmetic: every theorem about a float
  result below is a theorem about the real number the float computation approximates.
\<close>

definition py_isspace :: "char \<Rightarrow> bool" where
  "py_isspace c =
     (let n = (of_char c :: nat)
      in (9 \<le> n \<and> n \<le> 13) \<or> (28 \<le> n \<and> n \<le> 32) \<or> n = 133 \<or> n = 160)"

definition py_strip :: "string \<Rightarrow> string" where
  "py_strip s = rev (dropWhile py_isspace (rev (dropWhile py_isspace s)))"

definition lower_char :: "char \<Rightarrow> char" where
  "lower_char c =
     (let n = (of_char c :: nat)
      in if 65 \<le> n \<and> n \<le> 90 then char_of (n + 32)
         else if 192 \<le> n \<and> n \<le> 222 \<and> n \<noteq> 215 then char_of (n + 32)
         else c)"

definition py_lower :: "string \<Rightarrow> string" where
  "py_lower s = map lower_char s"

definition is_az :: "char \<Rightarrow> bool" where
  "is_az c = (let n = (of_char c :: nat) in 97 \<le> n \<and> n \<le> 122)"

text \<open>
  \<open>re.findall(cls+, s)\<close> for a character class \<open>cls\<close>: the maximal runs of characters
  of the class, left to right. \<open>cur\<close> is the run being read.
\<close>

fun findall_runs :: "(char \<Rightarrow> bool) \<Rightarrow> string \<Rightarrow> string \<Rightarrow> string list" where
  "findall_runs cls cur [] = (if cur = [] then [] else [cur])"
| "findall_runs cls cur (c # cs) =
     (if cls c then findall_runs cls (cur @ [c]) cs
      else (if cur = [] then [] else [cur]) @ findall_runs cls [] cs)"

section \<open>Spam detector (modules/spam_detector.py)\<close>

text \<open>
  The word counts are \<open>defaultdict(int)\<close> objects: association lists in insertion
  order. The vocabulary is a set of words, of which only the size is read.
\<close>

type_synonym word_counts = "(string \<times> nat) list"

record spam_detector =
  ham_words :: word_counts
  spam_words :: word_counts
  ham_messages_count :: nat
  spam_messages_count :: nat
  all_words :: "string set"

text \<open>
  \<open>d[w]\<close> on a \<open>defaultdict(int)\<close>: a missing key is inserted with the value 0 before
  0 is returned, so reading changes the dictionary.
\<close>

definition dd_getitem :: "word_counts \<Rightarrow> string \<Rightarrow> nat \<times> word_counts" where
  "dd_getitem d w =
     (case map_of d w of
        Some c \<Rightarrow> (c, d)
      | None \<Rightarrow> (0, d @ [(w, 0)]))"

text \<open>\<open>d[w] += 1\<close> on a \<open>defaultdict(int)\<close>.\<close>

definition dd_increment :: "word_counts \<Rightarrow> string \<Rightarrow> word_counts" where
  "dd_increment d w =
     (case dd_getitem d w of (c, d') \<Rightarrow> AList.update w (c + 1) d')"

definition spam_tokenize :: "string \<Rightarrow> string list" where
  "spam_tokenize s = findall_runs is_az [] (py_lower s)"

fun train_words :: "bool \<Rightarrow> spam_detector \<Rightarrow> string list \<Rightarrow> spam_detector" where
  "train_words is_spam m [] = m"
| "train_words is_spam m (w # ws) =
     (let m1 = m\<lparr>all_words := insert w (all_words m)\<rparr>;
          m2 = (if is_spam then m1\<lparr>spam_words := dd_increment (spam_words m1) w\<rparr>
                else m1\<lparr>ham_words := dd_increment (ham_words m1) w\<rparr>)
      in train_words is_spam m2 ws)"

definition train :: "spam_detector \<Rightarrow> string \<Rightarrow> bool \<Rightarrow> spam_detector" where
  "train m message is_spam =
     (let m' = train_words is_spam m (spam_tokenize message)
      in if is_spam then m'\<lparr>spam_messages_count := spam_messages_count m' + 1\<rparr>
         else m'\<lparr>ham_messages_count := ham_messages_count m' + 1\<rparr>)"

text \<open>
  A training file as \<open>_load_and_train\<close> sees it: absent, readable (its lines), or
  raising while it is read after some lines were delivered.
\<close>

datatype corpus = Missing | Lines "string list" | Broken "string list"

definition empty_detector :: spam_detector where
  "empty_detector =
     \<lparr>ham_words = [], spam_words = [], ham_messages_count = 0,
      spam_messages_count = 0, all_words = {}\<rparr>"

definition default_training :: "spam_detector \<Rightarrow> spam_detector" where
  "default_training m = train (train m ''hello how are you'' False) ''buy now free money'' True"

fun train_lines :: "bool \<Rightarrow> spam_detector \<Rightarrow> string list \<Rightarrow> spam_detector" where
  "train_lines is_spam m [] = m"
| "train_lines is_spam m (l # ls) = train_lines is_spam (train m (py_strip l) is_spam) ls"

definition load_and_train :: "spam_detector \<Rightarrow> corpus \<Rightarrow> corpus \<Rightarrow> spam_detector" where
  "load_and_train m ham_file spam_file =
     (if ham_file = Missing \<and> spam_file = Missing then default_training m
      else
        (case ham_file of
           Broken ls \<Rightarrow> default_training empty_detector
         | Missing \<Rightarrow>
             (case spam_file of
                Broken ls \<Rightarrow> default_training empty_detector
              | Missing \<Rightarrow> m
              | Lines ls \<Rightarrow> train_lines True m ls)
         | Lines hs \<Rightarrow>
             (let m1 = train_lines False m hs
              in case spam_file of
                   Broken ls \<Rightarrow> default_training empty_detector
                 | Missing \<Rightarrow> m1
                 | Lines ls \<Rightarrow> train_lines True m1 ls)))"

definition SpamDetector_init :: "corpus \<Rightarrow> corpus \<Rightarrow> spam_detector" where
  "SpamDetector_init ham_file spam_file = load_and_train empty_detector ham_file spam_file"

text \<open>
  \<open>_calculate_word_probability\<close>: the dictionary argument is the detector's own
  dictionary object, so the entry that the lookup inserts stays in the detector; the
  updated dictionary is returned beside the probability.
\<close>

definition calculate_word_probability ::
    "string set \<Rightarrow> string \<Rightarrow> word_counts \<Rightarrow> nat \<Rightarrow> real \<times> word_counts" where
  "calculate_word_probability vocabulary w category_word_counts category_message_count =
     (let vocab_size = (if card vocabulary > 0 then card vocabulary else 1);
          total_words_in_category = sum_list (map snd category_word_counts)
      in case dd_getitem category_word_counts w of
           (c, d') \<Rightarrow> (real (c + 1) / real (total_words_in_category + vocab_size), d'))"

text \<open>The loop over the words of \<open>predict\<close>: both likelihoods and the detector.\<close>

fun likelihoods :: "spam_detector \<Rightarrow> real \<Rightarrow> real \<Rightarrow> string list \<Rightarrow> real \<times> real \<times> spam_detector" where
  "likelihoods m ham_likelihood spam_likelihood [] = (ham_likelihood, spam_likelihood, m)"
| "likelihoods m ham_likelihood spam_likelihood (w # ws) =
     (case calculate_word_probability (all_words m) w (ham_words m) (ham_messages_count m) of
        (ph, hw) \<Rightarrow>
          (let m1 = m\<lparr>ham_words := hw\<rparr>
           in case calculate_word_probability (all_words m1) w (spam_words m1)
                     (spam_messages_count m1) of
                (ps, sw) \<Rightarrow>
                  likelihoods (m1\<lparr>spam_words := sw\<rparr>) (ham_likelihood * ph)
                    (spam_likelihood * ps) ws))"

text \<open>
  The two posteriors that \<open>predict\<close> compares, for a detector with at least one
  training message and a message with the given words.
\<close>

definition posteriors :: "spam_detector \<Rightarrow> string list \<Rightarrow> real \<times> real \<times> spam_detector" where
  "posteriors m ws =
     (let total_messages = ham_messages_count m + spam_messages_count m;
          prior_ham = real (ham_messages_count m) / real total_messages;
          prior_spam = real (spam_messages_count m) / real total_messages
      in case likelihoods m 1 1 ws of
           (ham_likelihood, spam_likelihood, m') \<Rightarrow>
             (ham_likelihood * prior_ham, spam_likelihood * prior_spam, m'))"

text \<open>\<open>predict\<close>: \<open>True\<close> is SPAM, \<open>False\<close> is HAM; the detector after the call is returned.\<close>

definition predict :: "spam_detector \<Rightarrow> string \<Rightarrow> bool \<times> spam_detector" where
  "predict m message =
     (if py_strip message = [] then (False, m)
      else
        (let ws = spam_tokenize message
         in if ws = [] \<or> (ham_messages_count m = 0 \<and> spam_messages_count m = 0)
            then (False, m)
            else if ham_messages_count m + spam_messages_count m = 0 then (False, m)
            else
              (case posteriors m ws of
                 (posterior_ham, posterior_spam, m') \<Rightarrow>
                   if posterior_ham = 0 \<and> posterior_spam = 0 then (False, m')
                   else (posterior_spam > posterior_ham, m'))))"

section \<open>Sentiment analyzer (modules/sentiment_analyzer.py)\<close>

definition positive_words :: "string set" where
  "positive_words =
     {''good'', ''great'', ''excellent'', ''wonderful'', ''amazing'', ''happy'',
      ''joy'', ''love'', ''fantastic'', ''awesome'', ''brilliant'', ''positive'',
      ''super'', ''success'', ''benefit'', ''pleasure'', ''like'', ''best'',
      ''perfect'', ''nice'', ''beautiful'', ''friendly'', ''kind'', ''optimistic'',
      ''glad'', ''delight'', ''cheer'', ''agree'', ''fine'', ''ok'', ''okay'',
      ''cool'', ''yeah''}"

definition negative_words :: "string set" where
  "negative_words =
     {''bad'', ''terrible'', ''horrible'', ''awful'', ''sad'', ''unhappy'', ''hate'',
      ''poor'', ''negative'', ''fail'', ''problem'', ''issue'', ''worry'', ''stress'',
      ''difficult'', ''worst'', ''ugly'', ''dislike'', ''error'', ''compromise'',
      ''urgent'', ''spam'', ''scam'', ''fraud'', ''danger'', ''risk'', ''threat'',
      ''warning'', ''suspicious'', ''not'', ''no'', ''never'', ''can't'', ''don't''}"

definition sentiment_tokenize :: "string \<Rightarrow> string list" where
  "sentiment_tokenize s = findall_runs is_az [] (py_lower s)"

fun sentiment_word_counts :: "nat \<Rightarrow> nat \<Rightarrow> string list \<Rightarrow> nat \<times> nat" where
  "sentiment_word_counts positive_count negative_count [] = (positive_count, negative_count)"
| "sentiment_word_counts positive_count negative_count (w # ws) =
     (if w \<in> positive_words then sentiment_word_counts (positive_count + 1) negative_count ws
      else if w \<in> negative_words then sentiment_word_counts positive_count (negative_count + 1) ws
      else sentiment_word_counts positive_count negative_count ws)"

definition sentiment_analyze :: "string \<Rightarrow> string" where
  "sentiment_analyze s =
     (if py_strip s = [] then ''neutral''
      else
        (case sentiment_word_counts 0 0 (sentiment_tokenize s) of
           (positive_count, negative_count) \<Rightarrow>
             if positive_count > negative_count then ''positive''
             else if negative_count > positive_count then ''negative''
             else ''neutral''))"

section \<open>Style analyzer (modules/style_analyzer.py)\<close>

definition formal_keywords :: "string set" where
  "formal_keywords =
     {''furthermore'', ''moreover'', ''hence'', ''thus'', ''consequently'',
      ''therefore'', ''sincerely'', ''regards'', ''cordially'',
      ''to whom it may concern'', ''pursuant to'', ''in accordance with'',
      ''commence'', ''terminate'', ''endeavor'', ''facilitate'', ''utilize'',
      ''prioritize'', ''hereby'', ''herein'', ''thereby'', ''therein'', ''herewith'',
      ''acquisition'', ''disbursement'', ''ameliorate'', ''concerning'', ''regarding'',
      ''notwithstanding'', ''respectfully'', ''additionally'', ''nevertheless'',
      ''consequently'', ''subsequently'', ''heretofore'', ''hereunder'',
      ''thereafter'', ''thereupon'', ''whereby'', ''whereas'', ''inquire'', ''advise'',
      ''confirm'', ''request'', ''duly'', ''herewith'', ''thereof'', ''accordingly'',
      ''according'', ''hereby'', ''herein'', ''thereby'', ''therein'', ''wherefore'',
      ''whereupon''}"

definition informal_keywords :: "string set" where
  "informal_keywords =
     {''hey'', ''hi'', ''lol'', ''brb'', ''btw'', ''gonna'', ''wanna'', ''lemme'',
      ''y'all'', ''asap'', ''imo'', ''fyi'', ''kinda'', ''sorta'', ''chill'', ''dude'',
      ''bro'', ''yeah'', ''nah'', ''awesome'', ''cool'', ''super'', ''greetings'',
      ''whats up'', ''cya'', ''np'', ''omg'', ''tho'', ''dunno'', ''nite'', ''pls'',
      ''thx'', ''u'', ''ur'', ''r'', ''lmao'', ''rofl'', ''gotta'', ''k'', ''cuz'',
      ''ya'', ''coz'', ''sup'', ''yo''}"

definition contractions :: "string set" where
  "contractions =
     {''i'm'', ''you're'', ''he's'', ''she's'', ''it's'', ''we're'', ''they're'',
      ''i've'', ''you've'', ''we've'', ''they've'', ''i'd'', ''you'd'', ''he'd'',
      ''she'd'', ''we'd'', ''they'd'', ''i'll'', ''you'll'', ''he'll'', ''she'll'',
      ''it'll'', ''we'll'', ''they'll'', ''isn't'', ''aren't'', ''wasn't'',
      ''weren't'', ''hasn't'', ''haven't'', ''hadn't'', ''won't'', ''wouldn't'',
      ''don't'', ''doesn't'', ''didn't'', ''can't'', ''couldn't'', ''shouldn't'',
      ''mightn't'', ''mustn't'', ''shan't'', ''needn't''}"

definition is_az_apostrophe :: "char \<Rightarrow> bool" where
  "is_az_apostrophe c = (is_az c \<or> (of_char c :: nat) = 39)"

definition style_tokenize :: "string \<Rightarrow> string list" where
  "style_tokenize s = findall_runs is_az_apostrophe [] (py_lower s)"

text \<open>
  \<open>round(x, 2)\<close>: the nearest multiple of 1/100, a tie going to the even one.
\<close>

definition round_half_even :: "real \<Rightarrow> int" where
  "round_half_even y =
     (let f = \<lfloor>y\<rfloor>; d = y - of_int f
      in if d < 1 / 2 then f else if d > 1 / 2 then f + 1
         else if even f then f else f + 1)"

definition py_round2 :: "real \<Rightarrow> real" where
  "py_round2 x = of_int (round_half_even (x * 100)) / 100"

fun style_counts :: "nat \<Rightarrow> nat \<Rightarrow> nat \<Rightarrow> string list \<Rightarrow> nat \<times> nat \<times> nat" where
  "style_counts formal_count informal_count contraction_count [] =
     (formal_count, informal_count, contraction_count)"
| "style_counts formal_count informal_count contraction_count (w # ws) =
     (let fc = (if w \<in> formal_keywords then formal_count + 1 else formal_count);
          ic = (if w \<notin> formal_keywords \<and> w \<in> informal_keywords then informal_count + 1
                else informal_count);
          cc = (if w \<in> contractions then contraction_count + 1 else contraction_count)
      in style_counts fc ic cc ws)"

record style_result =
  Style_Score :: real
  Formality :: string

definition style_analyze :: "string \<Rightarrow> style_result" where
  "style_analyze s =
     (if py_strip s = [] then \<lparr>Style_Score = 50, Formality = ''neutral''\<rparr>
      else
        (let ws = style_tokenize s
         in if ws = [] then \<lparr>Style_Score = 50, Formality = ''neutral''\<rparr>
            else
              (case style_counts 0 0 0 ws of
                 (formal_count, informal_count, contraction_count) \<Rightarrow>
                   (let total_words = length ws;
                        formality_score =
                          (real formal_count * 4 - real informal_count * (3 / 2)
                             - real contraction_count * 3) / real total_words;
                        formality =
                          (if formality_score > 1 / 10 then ''formal''
                           else if formality_score < - (15 / 100) then ''informal''
                           else ''neutral'');
                        clamped_formality_score = max (- (7 / 10)) (min (7 / 10) formality_score);
                        style_score = py_round2 ((clamped_formality_score + 7 / 10) / (14 / 10) * 100)
                    in \<lparr>Style_Score = max 0 (min 100 style_score), Formality = formality\<rparr>))))"

section \<open>Metrics calculator (modules/metrics_calculator.py)\<close>

text \<open>
  An analysed message is a Python dictionary from field names to values. The values
  are \<open>None\<close>, strings, numbers and \<open>datetime\<close> objects. \<open>int\<close>, \<open>float\<close> and \<open>bool\<close> are
  one constructor: both functions treat them alike (\<open>isinstance(x, (int, float))\<close>
  holds for all three, and equal numbers are the same dictionary key). A naive
  \<open>datetime\<close> is its number of microseconds since the first representable instant.
\<close>

datatype pyval = PNone | PStr string | PNum real | PDatetime int

type_synonym entry = "string \<rightharpoonup> pyval"

datatype py_error = AttributeError

definition entry_get :: "entry \<Rightarrow> string \<Rightarrow> pyval" where
  "entry_get e k = (case e k of None \<Rightarrow> PNone | Some v \<Rightarrow> v)"

fun truthy :: "pyval \<Rightarrow> bool" where
  "truthy PNone = False"
| "truthy (PStr s) = (s \<noteq> [])"
| "truthy (PNum x) = (x \<noteq> 0)"
| "truthy (PDatetime t) = True"

text \<open>
  \<open>if v in counts: counts[v] += 1\<close> for a dictionary whose keys are strings.
\<close>

fun tally :: "(string \<times> nat) list \<Rightarrow> pyval \<Rightarrow> (string \<times> nat) list" where
  "tally counts (PStr s) =
     (case map_of counts s of Some c \<Rightarrow> AList.update s (c + 1) counts | None \<Rightarrow> counts)"
| "tally counts v = counts"

text \<open>
  \<open>if formality and formality.lower() in formality_counts: ...\<close>: a falsy value is
  skipped, a string is lowered and counted, and any other value has no \<open>lower\<close>.
\<close>

fun tally_formality :: "(string \<times> nat) list \<Rightarrow> pyval \<Rightarrow> py_error + (string \<times> nat) list" where
  "tally_formality counts (PStr s) =
     (if s = [] then Inr counts else Inr (tally counts (PStr (py_lower s))))"
| "tally_formality counts PNone = Inr counts"
| "tally_formality counts (PNum x) = (if x = 0 then Inr counts else Inl AttributeError)"
| "tally_formality counts (PDatetime t) = Inl AttributeError"

fun append_style_score :: "real list \<Rightarrow> pyval \<Rightarrow> real list" where
  "append_style_score style_scores (PNum x) = style_scores @ [x]"
| "append_style_score style_scores v = style_scores"

definition average_style_score :: "real list \<Rightarrow> real" where
  "average_style_score style_scores =
     (if style_scores \<noteq> [] then py_round2 (sum_list style_scores / real (length style_scores))
      else 0)"

subsection \<open>calculate_content_metrics\<close>

record content_state =
  total :: nat
  spam_counts :: "(string \<times> nat) list"
  sentiment_counts :: "(string \<times> nat) list"
  style_scores :: "real list"
  formality_counts :: "(string \<times> nat) list"

record content_metrics =
  Total_Messages :: nat
  Spam_Counts :: "(string \<times> nat) list"
  Sentiment_Counts :: "(string \<times> nat) list"
  Average_Style_Score :: real
  Formality_Counts :: "(string \<times> nat) list"

definition content_step :: "content_state \<Rightarrow> entry \<Rightarrow> py_error + content_state" where
  "content_step st e =
     (if e ''Error'' \<noteq> None then Inr st
      else
        (let st1 = st\<lparr>total := total st + 1\<rparr>;
             st2 = st1\<lparr>spam_counts := tally (spam_counts st1) (entry_get e ''Spam'')\<rparr>;
             st3 = st2\<lparr>sentiment_counts :=
                      tally (sentiment_counts st2) (entry_get e ''Sentiment'')\<rparr>;
             st4 = st3\<lparr>style_scores :=
                      append_style_score (style_scores st3) (entry_get e ''Style Score'')\<rparr>
         in case tally_formality (formality_counts st4) (entry_get e ''Formality'') of
              Inl err \<Rightarrow> Inl err
            | Inr fc \<Rightarrow> Inr (st4\<lparr>formality_counts := fc\<rparr>)))"

fun content_loop :: "content_state \<Rightarrow> entry list \<Rightarrow> py_error + content_state" where
  "content_loop st [] = Inr st"
| "content_loop st (e # es) =
     (case content_step st e of
        Inl err \<Rightarrow> Inl err
      | Inr st' \<Rightarrow> content_loop st' es)"

definition content_init :: content_state where
  "content_init =
     \<lparr>total = 0,
      spam_counts = [(''SPAM'', 0), (''HAM'', 0)],
      sentiment_counts = [(''positive'', 0), (''neutral'', 0), (''negative'', 0)],
      style_scores = [],
      formality_counts = [(''formal'', 0), (''informal'', 0), (''neutral'', 0)]\<rparr>"

definition calculate_content_metrics :: "entry list \<Rightarrow> py_error + content_metrics" where
  "calculate_content_metrics results =
     (case content_loop content_init results of
        Inl err \<Rightarrow> Inl err
      | Inr st \<Rightarrow>
          Inr \<lparr>Total_Messages = total st,
               Spam_Counts = spam_counts st,
               Sentiment_Counts = sentiment_counts st,
               Average_Style_Score = average_style_score (style_scores st),
               Formality_Counts = formality_counts st\<rparr>)"

subsection \<open>calculate_engagement_metrics\<close>

text \<open>
  \<open>sender_freq\<close> is a \<open>defaultdict(int)\<close> and \<open>conversations_times\<close> a
  \<open>defaultdict(list)\<close>, both keyed by whatever value the entry carries.
\<close>

definition increment_sender :: "(pyval \<times> nat) list \<Rightarrow> pyval \<Rightarrow> (pyval \<times> nat) list" where
  "increment_sender sender_freq sender =
     (case map_of sender_freq sender of
        Some c \<Rightarrow> AList.update sender (c + 1) sender_freq
      | None \<Rightarrow> sender_freq @ [(sender, 1)])"

definition append_time :: "(pyval \<times> int list) list \<Rightarrow> pyval \<Rightarrow> int \<Rightarrow> (pyval \<times> int list) list" where
  "append_time conversations_times convo_id time_obj =
     (case map_of conversations_times convo_id of
        Some tms \<Rightarrow> AList.update convo_id (tms @ [time_obj]) conversations_times
      | None \<Rightarrow> conversations_times @ [(convo_id, [time_obj])])"

text \<open>
  \<open>datetime.strptime\<close> is the standard library's: a parameter \<open>strptime text format\<close>
  of the model, \<open>None\<close> where it raises \<open>ValueError\<close>. The aggregator tries five formats
  in turn on a timestamp that is a string.
\<close>

type_synonym strptime_fn = "string \<Rightarrow> string \<Rightarrow> int option"

fun first_parse :: "strptime_fn \<Rightarrow> string \<Rightarrow> string list \<Rightarrow> int option" where
  "first_parse strptime s [] = None"
| "first_parse strptime s (f # fs) =
     (case strptime s f of Some t \<Rightarrow> Some t | None \<Rightarrow> first_parse strptime s fs)"

definition engagement_formats :: "string list" where
  "engagement_formats =
     [''%Y-%m-%d %H:%M:%S'', ''%m/%d/%y %I:%M %p'', ''%m/%d/%Y %I:%M %p'',
      ''%m/%d/%y %H:%M'', ''%m/%d/%Y %H:%M'']"

fun to_time_obj :: "strptime_fn \<Rightarrow> pyval \<Rightarrow> int option" where
  "to_time_obj strptime (PDatetime t) = Some t"
| "to_time_obj strptime (PStr s) = first_parse strptime s engagement_formats"
| "to_time_obj strptime v = None"

record engagement_state =
  sender_freq :: "(pyval \<times> nat) list"
  conversations_times :: "(pyval \<times> int list) list"
  eng_formality_counts :: "(string \<times> nat) list"
  eng_style_scores :: "real list"

definition engagement_step ::
    "strptime_fn \<Rightarrow> engagement_state \<Rightarrow> entry \<Rightarrow> py_error + engagement_state" where
  "engagement_step strptime st e =
     (if e ''Error'' \<noteq> None then Inr st
      else
        (let sender = entry_get e ''Sender'';
             st1 = (if truthy sender
                    then st\<lparr>sender_freq := increment_sender (sender_freq st) sender\<rparr>
                    else st);
             st2 = st1\<lparr>eng_style_scores :=
                      append_style_score (eng_style_scores st1) (entry_get e ''Style Score'')\<rparr>
         in case tally_formality (eng_formality_counts st2) (entry_get e ''Formality'') of
              Inl err \<Rightarrow> Inl err
            | Inr fc \<Rightarrow>
                (let st3 = st2\<lparr>eng_formality_counts := fc\<rparr>;
                     convo_id = entry_get e ''Conversation ID'';
                     timestamp = entry_get e ''Timestamp''
                 in if truthy convo_id \<and> truthy timestamp
                    then
                      (case to_time_obj strptime timestamp of
                         Some time_obj \<Rightarrow>
                           Inr (st3\<lparr>conversations_times :=
                                  append_time (conversations_times st3) convo_id time_obj\<rparr>)
                       | None \<Rightarrow> Inr st3)
                    else Inr st3)))"

fun engagement_loop ::
    "strptime_fn \<Rightarrow> engagement_state \<Rightarrow> entry list \<Rightarrow> py_error + engagement_state" where
  "engagement_loop strptime st [] = Inr st"
| "engagement_loop strptime st (e # es) =
     (case engagement_step strptime st e of
        Inl err \<Rightarrow> Inl err
      | Inr st' \<Rightarrow> engagement_loop strptime st' es)"

text \<open>
  The gaps of one conversation: the list \<open>times\<close> is sorted, and each difference of neighbours
  is read in seconds (\<open>total_seconds()\<close>).
\<close>

fun consecutive_gaps :: "int list \<Rightarrow> real list" where
  "consecutive_gaps (a # b # ts) = (real_of_int (b - a) / 1000000) # consecutive_gaps (b # ts)"
| "consecutive_gaps ts = []"

definition conversation_gaps :: "int list \<Rightarrow> real list" where
  "conversation_gaps tms =
     (if length tms \<ge> 2 then consecutive_gaps (sort tms) else [])"

fun collect_gaps :: "real list \<Rightarrow> (pyval \<times> int list) list \<Rightarrow> real list" where
  "collect_gaps response_gaps [] = response_gaps"
| "collect_gaps response_gaps ((convo_id, tms) # rest) =
     collect_gaps (response_gaps @ conversation_gaps tms) rest"

definition clarity_suggestion :: string where
  "clarity_suggestion = ''Improve clarity and structure in messages.''"

definition formality_suggestion :: string where
  "formality_suggestion = ''Consider using more formal phrasing for professional contexts.''"

definition promptness_suggestion :: string where
  "promptness_suggestion =
     ''Respond to messages more promptly to improve conversation engagement.''"

definition dict_item :: "(string \<times> nat) list \<Rightarrow> string \<Rightarrow> nat" where
  "dict_item counts k = (case map_of counts k of Some c \<Rightarrow> c | None \<Rightarrow> 0)"

definition suggestions_of :: "real \<Rightarrow> (string \<times> nat) list \<Rightarrow> real option \<Rightarrow> string list" where
  "suggestions_of avg_style_score counts avg_response_time =
     (let s1 = (if avg_style_score < 40 then [clarity_suggestion] else []);
          total_non_neutral_formality = dict_item counts ''formal'' + dict_item counts ''informal'';
          s2 = (if total_non_neutral_formality > 0
                   \<and> real (dict_item counts ''informal'') > real (dict_item counts ''formal'') * (3 / 2)
                then s1 @ [formality_suggestion] else s1)
      in case avg_response_time of
           None \<Rightarrow> s2
         | Some r \<Rightarrow> if r > 3600 then s2 @ [promptness_suggestion] else s2)"

record engagement_metrics =
  Top_Senders :: "(pyval \<times> nat) list"
  Average_Response_time :: "real option"
  Suggestions :: "string list"
  Eng_Formality_Counts :: "(string \<times> nat) list"

definition engagement_init :: engagement_state where
  "engagement_init =
     \<lparr>sender_freq = [], conversations_times = [],
      eng_formality_counts = [(''formal'', 0), (''informal'', 0), (''neutral'', 0)],
      eng_style_scores = []\<rparr>"

definition calculate_engagement_metrics ::
    "strptime_fn \<Rightarrow> entry list \<Rightarrow> py_error + engagement_metrics" where
  "calculate_engagement_metrics strptime results =
     (case engagement_loop strptime engagement_init results of
        Inl err \<Rightarrow> Inl err
      | Inr st \<Rightarrow>
          (let response_gaps = collect_gaps [] (conversations_times st);
               avg_response_time =
                 (if response_gaps \<noteq> []
                  then Some (py_round2 (sum_list response_gaps / real (length response_gaps)))
                  else None);
               avg_style_score = average_style_score (eng_style_scores st)
           in Inr \<lparr>Top_Senders = sender_freq st,
                   Average_Response_time = avg_response_time,
                   Suggestions =
                     suggestions_of avg_style_score (eng_formality_counts st) avg_response_time,
                   Eng_Formality_Counts = eng_formality_counts st\<rparr>))"

section \<open>Chat-log parser (modules/report_generator.py)\<close>

subsection \<open>The chat-line pattern\<close>

text \<open>
  \<open>whatsapp_line_pattern.match(line)\<close> is a backtracking search: each part of the
  pattern lists the ways it can match a prefix of its input, the preferred way first
  (the longest for a greedy part, the shortest for a lazy one), as pairs of the matched
  prefix and the rest. The match is the first way through all parts.
\<close>

definition is_digit :: "char \<Rightarrow> bool" where
  "is_digit c = (let n = (of_char c :: nat) in 48 \<le> n \<and> n \<le> 57)"

definition rx_digits :: "nat \<Rightarrow> nat \<Rightarrow> string \<Rightarrow> (string \<times> string) list" where
  "rx_digits lo hi s =
     (let k = length (takeWhile is_digit s)
      in [(take n s, drop n s). n \<leftarrow> rev [lo..<Suc hi], n \<le> k])"

definition rx_lit :: "char \<Rightarrow> string \<Rightarrow> string list" where
  "rx_lit c s = (case s of [] \<Rightarrow> [] | x # xs \<Rightarrow> if x = c then [xs] else [])"

definition rx_spaces :: "string \<Rightarrow> (string \<times> string) list" where
  "rx_spaces s =
     (let k = length (takeWhile py_isspace s)
      in [(take n s, drop n s). n \<leftarrow> rev [0..<Suc k]])"

definition rx_am_pm :: "string \<Rightarrow> (string \<times> string) list" where
  "rx_am_pm s =
     (case s of
        a # b # r \<Rightarrow>
          if (lower_char a = CHR ''a'' \<or> lower_char a = CHR ''p'') \<and> lower_char b = CHR ''m''
          then [([a, b], r)] else []
      | _ \<Rightarrow> [])"

definition rx_opt_am_pm :: "string \<Rightarrow> (string \<times> string) list" where
  "rx_opt_am_pm s =
     [(sp @ ap, r'). (sp, r) \<leftarrow> rx_spaces s, (ap, r') \<leftarrow> rx_am_pm r] @ [([], s)]"

definition rx_sender :: "string \<Rightarrow> (string \<times> string) list" where
  "rx_sender s =
     (let k = length (takeWhile (\<lambda>c. c \<noteq> CHR '':'') s)
      in [(take n s, drop n s). n \<leftarrow> [1..<Suc k]])"

definition rx_rest :: "string \<Rightarrow> string list" where
  "rx_rest s =
     (let p = takeWhile (\<lambda>c. c \<noteq> CHR 0x0A) s; q = drop (length p) s
      in if q = [] \<or> q = [CHR 0x0A] then [p] else [])"

definition whatsapp_line_matches :: "string \<Rightarrow> (string \<times> string \<times> string \<times> string) list" where
  "whatsapp_line_matches s =
     [(d1 @ ''/'' @ d2 @ ''/'' @ d3, h @ '':'' @ mi @ ap, sender, message_text).
        (d1, r1) \<leftarrow> rx_digits 1 2 s, r2 \<leftarrow> rx_lit (CHR ''/'') r1,
        (d2, r3) \<leftarrow> rx_digits 1 2 r2, r4 \<leftarrow> rx_lit (CHR ''/'') r3,
        (d3, r5) \<leftarrow> rx_digits 2 4 r4, r6 \<leftarrow> rx_lit (CHR '','') r5,
        (sp1, r7) \<leftarrow> rx_spaces r6,
        (h, r8) \<leftarrow> rx_digits 1 2 r7, r9 \<leftarrow> rx_lit (CHR '':'') r8,
        (mi, r10) \<leftarrow> rx_digits 2 2 r9,
        (ap, r11) \<leftarrow> rx_opt_am_pm r10,
        (sp2, r12) \<leftarrow> rx_spaces r11, r13 \<leftarrow> rx_lit (CHR ''-'') r12,
        (sp3, r14) \<leftarrow> rx_spaces r13,
        (sender, r15) \<leftarrow> rx_sender r14, r16 \<leftarrow> rx_lit (CHR '':'') r15,
        (sp4, r17) \<leftarrow> rx_spaces r16,
        message_text \<leftarrow> rx_rest r17]"

definition whatsapp_line_pattern_match ::
    "string \<Rightarrow> (string \<times> string \<times> string \<times> string) option" where
  "whatsapp_line_pattern_match s =
     (case whatsapp_line_matches s of [] \<Rightarrow> None | g # gs \<Rightarrow> Some g)"

subsection \<open>Helpers from the standard library\<close>

text \<open>\<open>str.splitlines\<close> on the code points 0..255.\<close>

definition is_line_boundary :: "char \<Rightarrow> bool" where
  "is_line_boundary c =
     (let n = (of_char c :: nat)
      in n = 10 \<or> n = 11 \<or> n = 12 \<or> n = 13 \<or> n = 28 \<or> n = 29 \<or> n = 30 \<or> n = 133)"

fun splitlines_from :: "string \<Rightarrow> string \<Rightarrow> string list" where
  "splitlines_from cur [] = (if cur = [] then [] else [cur])"
| "splitlines_from cur [c] =
     (if is_line_boundary c then [cur] else [cur @ [c]])"
| "splitlines_from cur (c # d # cs) =
     (if c = CHR 0x0D \<and> d = CHR 0x0A then cur # splitlines_from [] cs
      else if is_line_boundary c then cur # splitlines_from [] (d # cs)
      else splitlines_from (cur @ [c]) (d # cs))"

definition splitlines :: "string \<Rightarrow> string list" where
  "splitlines s = splitlines_from [] s"

text \<open>\<open>str(n)\<close> for a line number, \<open>os.path.basename\<close> (POSIX) and \<open>str.replace\<close>.\<close>

fun str_nat :: "nat \<Rightarrow> string" where
  "str_nat n =
     (if n < 10 then [char_of (48 + n)]
      else str_nat (n div 10) @ [char_of (48 + n mod 10)])"

definition basename :: "string \<Rightarrow> string" where
  "basename path = rev (takeWhile (\<lambda>c. c \<noteq> CHR ''/'') (rev path))"

definition replace_char :: "char \<Rightarrow> char \<Rightarrow> string \<Rightarrow> string" where
  "replace_char old new s = map (\<lambda>c. if c = old then new else c) s"

subsection \<open>_parse_whatsapp_content\<close>

record chat_message =
  Source :: string
  Message_ID :: string
  Sender :: string
  Conversation_ID :: string
  Timestamp :: "int option"
  Subject :: string
  Message :: string

definition whatsapp_formats :: "string list" where
  "whatsapp_formats =
     [''%m/%d/%y %I:%M %p'', ''%m/%d/%Y %I:%M %p'', ''%m/%d/%y %H:%M'', ''%m/%d/%Y %H:%M'']"

text \<open>One iteration of the loop over \<open>enumerate(file_content.splitlines(), 1)\<close>.\<close>

definition whatsapp_step ::
    "strptime_fn \<Rightarrow> string \<Rightarrow> string \<Rightarrow> chat_message list \<Rightarrow> nat \<Rightarrow> string \<Rightarrow> chat_message list" where
  "whatsapp_step strptime filename conversation_id messages line_num raw_line =
     (let line = py_strip raw_line
      in if line = [] then messages
         else
           (case whatsapp_line_pattern_match line of
              Some (date_part, time_part, sender, message_text) \<Rightarrow>
                (let timestamp_str = date_part @ '' '' @ py_strip time_part;
                     parsed_timestamp = first_parse strptime timestamp_str whatsapp_formats
                 in messages @
                    [\<lparr>Source = filename,
                      Message_ID = filename @ ''_line_'' @ str_nat line_num,
                      Sender = py_strip sender,
                      Conversation_ID = conversation_id,
                      Timestamp = parsed_timestamp,
                      Subject = ''WhatsApp Chat Message'',
                      Message = py_strip message_text\<rparr>])
            | None \<Rightarrow>
                if messages \<noteq> []
                then butlast messages @
                     [(last messages)\<lparr>Message := Message (last messages) @ [CHR 0x0A] @ line\<rparr>]
                else if line_num = 1 then messages
                else messages @
                     [\<lparr>Source = filename,
                       Message_ID = filename @ ''_line_'' @ str_nat line_num @ ''_unformatted'',
                       Sender = ''Unknown'',
                       Conversation_ID = conversation_id,
                       Timestamp = None,
                       Subject = ''Unformatted Chat Line'',
                       Message = line\<rparr>]))"

fun whatsapp_loop ::
    "strptime_fn \<Rightarrow> string \<Rightarrow> string \<Rightarrow> chat_message list \<Rightarrow> nat \<Rightarrow> string list \<Rightarrow> chat_message list" where
  "whatsapp_loop strptime filename conversation_id messages line_num [] = messages"
| "whatsapp_loop strptime filename conversation_id messages line_num (l # ls) =
     whatsapp_loop strptime filename conversation_id
       (whatsapp_step strptime filename conversation_id messages line_num l) (line_num + 1) ls"

definition parse_whatsapp_content :: "strptime_fn \<Rightarrow> string \<Rightarrow> string \<Rightarrow> chat_message list" where
  "parse_whatsapp_content strptime file_content filename =
     (let conversation_id = ''whatsapp_chat_'' @ replace_char (CHR ''.'') (CHR ''_'') (basename filename)
      in whatsapp_loop strptime filename conversation_id [] 1 (splitlines file_content))"

section \<open>Reference definitions for the properties\<close>

subsection \<open>The classifier as the specification words it\<close>

text \<open>
  The count of a word in a class (0 when unseen), the vocabulary size floored at 1, the
  add-one smoothed word probability, and the two posteriors as products over the
  tokens times the class prior. None of them touches the detector.
\<close>

definition word_count :: "word_counts \<Rightarrow> string \<Rightarrow> nat" where
  "word_count d w = (case map_of d w of Some c \<Rightarrow> c | None \<Rightarrow> 0)"

definition vocab_size :: "string set \<Rightarrow> nat" where
  "vocab_size V = (if card V > 0 then card V else 1)"

definition word_probability :: "word_counts \<Rightarrow> string set \<Rightarrow> string \<Rightarrow> real" where
  "word_probability d V w =
     real (word_count d w + 1) / real (sum_list (map snd d) + vocab_size V)"

definition posterior_ham :: "spam_detector \<Rightarrow> string list \<Rightarrow> real" where
  "posterior_ham m ws =
     prod_list (map (word_probability (ham_words m) (all_words m)) ws) *
     (real (ham_messages_count m) / real (ham_messages_count m + spam_messages_count m))"

definition posterior_spam :: "spam_detector \<Rightarrow> string list \<Rightarrow> real" where
  "posterior_spam m ws =
     prod_list (map (word_probability (spam_words m) (all_words m)) ws) *
     (real (spam_messages_count m) / real (ham_messages_count m + spam_messages_count m))"


subsection \<open>The batch as the specification words it\<close>

text \<open>
  The records without an \<open>Error\<close> field, in their order.
\<close>

definition valid_entries :: "entry list \<Rightarrow> entry list" where
  "valid_entries results = filter (\<lambda>e. e ''Error'' = None) results"
















subsection \<open>Example batches\<close>



definition never_parses :: strptime_fn where
  "never_parses s f = None"


text \<open>
  A batch of one error record; four records of one conversation at 0, 1, 2 and 4
  seconds; three records with the style scores 39.99, 40 and 40; and two batches with
  the mean style score 30 and 60.
\<close>

definition error_batch :: "entry list" where
  "error_batch =
     [[''Source'' \<mapsto> PStr ''a.txt'', ''Error'' \<mapsto> PStr ''unreadable'',
       ''Message'' \<mapsto> PStr ''Could not read file.'']]"





subsection \<open>The chat-log parser line by line\<close>

text \<open>
  The conversation id of a chat file, and the records the parser holds after the
  first \<open>k\<close> lines of the file; after all lines they are the result. Two chat logs: a
  chat line followed by a free line, and an empty line followed by a free line.
\<close>

definition chat_conversation_id :: "string \<Rightarrow> string" where
  "chat_conversation_id filename =
     ''whatsapp_chat_'' @ replace_char (CHR ''.'') (CHR ''_'') (basename filename)"

definition records_after :: "strptime_fn \<Rightarrow> string \<Rightarrow> string \<Rightarrow> nat \<Rightarrow> chat_message list" where
  "records_after strptime file_content filename k =
     whatsapp_loop strptime filename (chat_conversation_id filename) [] 1
       (take k (splitlines file_content))"

definition chat_with_continuation :: string where
  "chat_with_continuation = ''1/1/25, 10:00 AM - Alice: Hey Bob!'' @ [CHR 0x0A] @ ''  see you soon  ''"

definition chat_with_late_notice :: string where
  "chat_with_late_notice = [CHR 0x0A] @ ''Messages are encrypted''"

section \<open>Properties of the spam detector\<close>

lemma dd_getitem_fst: "fst (dd_getitem d w) = word_count d w"
  by (simp add: dd_getitem_def word_count_def split: option.splits)

lemma dd_getitem_word_count: "word_count (snd (dd_getitem d w)) v = word_count d v"
  by (cases "map_of d w"; cases "map_of d v")
    (auto simp: dd_getitem_def word_count_def map_add_def)

lemma dd_getitem_total: "sum_list (map snd (snd (dd_getitem d w))) = sum_list (map snd d)"
  by (simp add: dd_getitem_def split: option.splits)

lemma word_probability_getitem:
  "word_probability (snd (dd_getitem d u)) V = word_probability d V"
  by (rule ext) (simp add: word_probability_def dd_getitem_word_count dd_getitem_total)

lemma calculate_word_probability_fst:
  "fst (calculate_word_probability V w d n) = word_probability d V w"
  by (simp add: calculate_word_probability_def word_probability_def vocab_size_def
      case_prod_beta dd_getitem_fst Let_def)

lemma calculate_word_probability_snd:
  "snd (calculate_word_probability V w d n) = snd (dd_getitem d w)"
  by (simp add: calculate_word_probability_def case_prod_beta Let_def)

lemma likelihoods_Cons:
  "likelihoods m hl sl (w # ws) =
     likelihoods (m\<lparr>ham_words := snd (dd_getitem (ham_words m) w),
                    spam_words := snd (dd_getitem (spam_words m) w)\<rparr>)
       (hl * word_probability (ham_words m) (all_words m) w)
       (sl * word_probability (spam_words m) (all_words m) w) ws"
  by (simp add: case_prod_beta Let_def calculate_word_probability_fst
      calculate_word_probability_snd)



text \<open>
  What the loop of \<open>predict\<close> does leave alone: the two message counts, the
  vocabulary, and the count and the total that every later lookup reads.
\<close>

lemma likelihoods_frame:
  "ham_messages_count (snd (snd (likelihoods m hl sl ws))) = ham_messages_count m \<and>
   spam_messages_count (snd (snd (likelihoods m hl sl ws))) = spam_messages_count m \<and>
   all_words (snd (snd (likelihoods m hl sl ws))) = all_words m \<and>
   word_probability (ham_words (snd (snd (likelihoods m hl sl ws)))) V =
     word_probability (ham_words m) V \<and>
   word_probability (spam_words (snd (snd (likelihoods m hl sl ws)))) V =
     word_probability (spam_words m) V"
proof (induction ws arbitrary: m hl sl)
  case Nil
  show ?case by simp
next
  case (Cons w ws)
  show ?case
    by (simp add: likelihoods_Cons Cons.IH word_probability_getitem del: likelihoods.simps)
qed

lemma dropWhile_rev_dropWhile:
  "dropWhile P (rev (dropWhile P s)) = [] \<longleftrightarrow> dropWhile P s = []"
proof
  assume a: "dropWhile P (rev (dropWhile P s)) = []"
  show "dropWhile P s = []"
  proof (rule ccontr)
    assume n: "dropWhile P s \<noteq> []"
    then have "\<not> P (hd (dropWhile P s))" by (rule hd_dropWhile)
    moreover have "hd (dropWhile P s) \<in> set (rev (dropWhile P s))" using n by simp
    ultimately show False using a by (auto simp: dropWhile_eq_Nil_conv)
  qed
next
  assume e: "dropWhile P s = []"
  show "dropWhile P (rev (dropWhile P s)) = []" unfolding e by simp
qed

lemma strip_empty_iff: "py_strip s = [] \<longleftrightarrow> (\<forall>c\<in>set s. py_isspace c)"
  unfolding py_strip_def rev_is_Nil_conv dropWhile_rev_dropWhile
  by (simp add: dropWhile_eq_Nil_conv)








subsection \<open>Reading the model changes it\<close>

text \<open>
  Claim C5. The detector trained on the built-in pair has four spam words. After
  \<open>predict\<close> on the message \<open>hello\<close>, a word seen only in ham training, the spam word
  counts hold a fifth entry, \<open>hello\<close> with count 0: the lookup of the
  \<open>defaultdict\<close> inserted it.
\<close>

theorem predict_inserts_unseen_word:
  "spam_words (SpamDetector_init Missing Missing) =
     [(''buy'', 1), (''now'', 1), (''free'', 1), (''money'', 1)] \<and>
   spam_words (snd (predict (SpamDetector_init Missing Missing) ''hello'')) =
     [(''buy'', 1), (''now'', 1), (''free'', 1), (''money'', 1), (''hello'', 0)]"
  by code_simp

text \<open>
  What \<open>predict\<close> does keep, for every detector and message: both message counts, the
  vocabulary, and every smoothed word probability.
\<close>

lemma predict_frame:
  "ham_messages_count (snd (predict m message)) = ham_messages_count m \<and>
   spam_messages_count (snd (predict m message)) = spam_messages_count m \<and>
   all_words (snd (predict m message)) = all_words m \<and>
   word_probability (ham_words (snd (predict m message))) V = word_probability (ham_words m) V \<and>
   word_probability (spam_words (snd (predict m message))) V = word_probability (spam_words m) V"
  by (simp add: predict_def posteriors_def Let_def case_prod_beta likelihoods_frame)

subsection \<open>Appending spam-indicative words\<close>










section \<open>Properties of the sentiment and style analyzers\<close>

text \<open>
  Claim C2. For every input string, the style score that \<open>analyze\<close> returns lies in
  the closed interval from 0 to 100, and the formality label is one of \<open>formal\<close>,
  \<open>informal\<close> and \<open>neutral\<close>.
\<close>

theorem style_analyze_bounds:
  "0 \<le> Style_Score (style_analyze s) \<and> Style_Score (style_analyze s) \<le> 100 \<and>
   Formality (style_analyze s) \<in> {''formal'', ''informal'', ''neutral''}"
  by (simp add: style_analyze_def Let_def case_prod_beta)

text \<open>
  Claim C7. For every string that is empty or holds only whitespace, the sentiment
  is \<open>neutral\<close>, the style result is the score 50 with formality \<open>neutral\<close>, and the
  spam prediction of every detector is HAM.
\<close>

theorem whitespace_defaults:
  assumes "\<forall>c\<in>set s. py_isspace c"
  shows "sentiment_analyze s = ''neutral'' \<and>
         style_analyze s = \<lparr>Style_Score = 50, Formality = ''neutral''\<rparr> \<and>
         fst (predict m s) = False"
proof -
  have e: "py_strip s = []" using assms by (simp add: strip_empty_iff)
  show ?thesis
    by (simp add: e sentiment_analyze_def style_analyze_def predict_def)
qed

theorem whitespace_defaults_witness:
  "py_isspace (CHR '' '') \<and> py_isspace (CHR 0x09) \<and> py_isspace (CHR 0x0A) \<and>
   sentiment_analyze [CHR '' '', CHR 0x09, CHR 0x0A] = ''neutral'' \<and>
   style_analyze [CHR '' '', CHR 0x09, CHR 0x0A] =
     \<lparr>Style_Score = 50, Formality = ''neutral''\<rparr> \<and>
   fst (predict (SpamDetector_init Missing Missing) [CHR '' '', CHR 0x09, CHR 0x0A]) = False \<and>
   sentiment_analyze [] = ''neutral'' \<and>
   style_analyze [] = \<lparr>Style_Score = 50, Formality = ''neutral''\<rparr> \<and>
   fst (predict (SpamDetector_init Missing Missing) []) = False"
proof -
  have a: "py_isspace (CHR '' '')" "py_isspace (CHR 0x09)" "py_isspace (CHR 0x0A)"
    by (simp_all add: py_isspace_def)
  have h: "\<forall>c\<in>set [CHR '' '', CHR 0x09, CHR 0x0A]. py_isspace c" using a by simp
  have h0: "\<forall>c\<in>set []. py_isspace c" by simp
  from a whitespace_defaults [OF h, of "SpamDetector_init Missing Missing"]
    whitespace_defaults [OF h0, of "SpamDetector_init Missing Missing"]
  show ?thesis by blast
qed

section \<open>Properties of the metrics calculator\<close>

subsection \<open>Content metrics\<close>













lemma content_loop_valid: "content_loop st (valid_entries es) = content_loop st es"
proof (induction es arbitrary: st)
  case Nil
  show ?case by (simp add: valid_entries_def)
next
  case (Cons e es)
  show ?case
  proof (cases "e ''Error'' = None")
    case True
    then have v: "valid_entries (e # es) = e # valid_entries es"
      by (simp add: valid_entries_def)
    show ?thesis
      unfolding v by (simp add: Cons.IH split: sum.splits)
  next
    case False
    then have v: "valid_entries (e # es) = valid_entries es"
      by (simp add: valid_entries_def)
    have "content_step st e = Inr st"
      by (simp add: content_step_def False)
    then show ?thesis
      unfolding v by (simp add: Cons.IH)
  qed
qed

subsection \<open>Engagement metrics\<close>



lemma engagement_loop_valid:
  "engagement_loop strptime st (valid_entries es) = engagement_loop strptime st es"
proof (induction es arbitrary: st)
  case Nil
  show ?case by (simp add: valid_entries_def)
next
  case (Cons e es)
  show ?case
  proof (cases "e ''Error'' = None")
    case True
    then have v: "valid_entries (e # es) = e # valid_entries es"
      by (simp add: valid_entries_def)
    show ?thesis
      unfolding v by (simp add: Cons.IH split: sum.splits)
  next
    case False
    then have v: "valid_entries (e # es) = valid_entries es"
      by (simp add: valid_entries_def)
    have "engagement_step strptime st e = Inr st"
      by (simp add: engagement_step_def False)
    then show ?thesis
      unfolding v by (simp add: Cons.IH)
  qed
qed










lemma only_errors_valid: "(\<forall>e\<in>set results. e ''Error'' \<noteq> None) \<Longrightarrow> valid_entries results = []"
  by (auto simp: valid_entries_def filter_empty_conv)















text \<open>
  Claim C9, as stated, fails in its last part: for a batch of one error record the
  engagement aggregator returns the clarity suggestion, not an empty list, since the
  average style score of no scores is 0 and 0 is below 40.
\<close>

theorem only_errors_suggestion_counterexample:
  "calculate_engagement_metrics never_parses error_batch =
     Inr \<lparr>Top_Senders = [],
          Average_Response_time = None,
          Suggestions = [''Improve clarity and structure in messages.''],
          Eng_Formality_Counts = [(''formal'', 0), (''informal'', 0), (''neutral'', 0)]\<rparr>"
  by code_simp

text \<open>
  Claim C9, amended. Both aggregators give for a batch exactly what they give for its
  records without an \<open>Error\<close> field. For a batch of error records only, both return:
  the total 0, every count of every tally 0, the average style score 0, no sender, an
  absent average response time, and the clarity suggestion as the only suggestion.
\<close>

theorem error_records_excluded:
  "calculate_content_metrics results = calculate_content_metrics (valid_entries results) \<and>
   calculate_engagement_metrics strptime results =
     calculate_engagement_metrics strptime (valid_entries results) \<and>
   ((\<forall>e\<in>set results. e ''Error'' \<noteq> None) \<longrightarrow>
      calculate_content_metrics results =
        Inr \<lparr>Total_Messages = 0,
             Spam_Counts = [(''SPAM'', 0), (''HAM'', 0)],
             Sentiment_Counts = [(''positive'', 0), (''neutral'', 0), (''negative'', 0)],
             Average_Style_Score = 0,
             Formality_Counts = [(''formal'', 0), (''informal'', 0), (''neutral'', 0)]\<rparr> \<and>
      calculate_engagement_metrics strptime results =
        Inr \<lparr>Top_Senders = [],
             Average_Response_time = None,
             Suggestions = [clarity_suggestion],
             Eng_Formality_Counts = [(''formal'', 0), (''informal'', 0), (''neutral'', 0)]\<rparr>)"
proof -
  have a: "calculate_content_metrics results = calculate_content_metrics (valid_entries results)"
    by (simp add: calculate_content_metrics_def content_loop_valid)
  have b: "calculate_engagement_metrics strptime results =
     calculate_engagement_metrics strptime (valid_entries results)"
    by (simp add: calculate_engagement_metrics_def engagement_loop_valid)
  have c: "calculate_content_metrics [] =
        Inr \<lparr>Total_Messages = 0,
             Spam_Counts = [(''SPAM'', 0), (''HAM'', 0)],
             Sentiment_Counts = [(''positive'', 0), (''neutral'', 0), (''negative'', 0)],
             Average_Style_Score = 0,
             Formality_Counts = [(''formal'', 0), (''informal'', 0), (''neutral'', 0)]\<rparr>"
    by (simp add: calculate_content_metrics_def content_init_def average_style_score_def)
  have d: "calculate_engagement_metrics strptime [] =
        Inr \<lparr>Top_Senders = [],
             Average_Response_time = None,
             Suggestions = [clarity_suggestion],
             Eng_Formality_Counts = [(''formal'', 0), (''informal'', 0), (''neutral'', 0)]\<rparr>"
    by (simp add: calculate_engagement_metrics_def engagement_init_def average_style_score_def
        suggestions_of_def dict_item_def)
  show ?thesis
    using a b c d by (auto simp: only_errors_valid)
qed

theorem error_records_excluded_witness:
  "(error_batch ! 0) ''Error'' \<noteq> None \<and>
   calculate_content_metrics error_batch =
        Inr \<lparr>Total_Messages = 0,
             Spam_Counts = [(''SPAM'', 0), (''HAM'', 0)],
             Sentiment_Counts = [(''positive'', 0), (''neutral'', 0), (''negative'', 0)],
             Average_Style_Score = 0,
             Formality_Counts = [(''formal'', 0), (''informal'', 0), (''neutral'', 0)]\<rparr> \<and>
   calculate_engagement_metrics never_parses error_batch =
        Inr \<lparr>Top_Senders = [],
             Average_Response_time = None,
             Suggestions = [clarity_suggestion],
             Eng_Formality_Counts = [(''formal'', 0), (''informal'', 0), (''neutral'', 0)]\<rparr>"
proof -
  have h: "\<forall>e\<in>set error_batch. e ''Error'' \<noteq> None" by (simp add: error_batch_def)
  have i: "(error_batch ! 0) ''Error'' \<noteq> None" by (simp add: error_batch_def)
  from error_records_excluded [of error_batch never_parses] h i show ?thesis by blast
qed

section \<open>Properties of the chat-log parser\<close>

lemma whatsapp_loop_snoc:
  "whatsapp_loop strptime filename cid msgs n (ls @ [l]) =
   whatsapp_step strptime filename cid (whatsapp_loop strptime filename cid msgs n ls)
     (n + length ls) l"
  by (induction ls arbitrary: msgs n) simp_all

lemma records_after_Suc:
  assumes "k < length (splitlines file_content)"
  shows "records_after strptime file_content filename (Suc k) =
     whatsapp_step strptime filename (chat_conversation_id filename)
       (records_after strptime file_content filename k) (Suc k) (splitlines file_content ! k)"
  using assms
  by (simp add: records_after_def take_Suc_conv_app_nth whatsapp_loop_snoc min_def)

lemma records_after_all:
  "parse_whatsapp_content strptime file_content filename =
   records_after strptime file_content filename (length (splitlines file_content))"
  by (simp add: records_after_def parse_whatsapp_content_def chat_conversation_id_def)

text \<open>
  Claim C6, as stated, fails: a file whose first and only line is a non-empty line
  that does not match the chat-line pattern gives no record at all, not a record with
  sender \<open>Unknown\<close>: the parser skips such a line when its line number is 1.
\<close>

theorem first_line_skipped_counterexample:
  "py_strip ''Messages are encrypted'' \<noteq> [] \<and>
   whatsapp_line_pattern_match (py_strip ''Messages are encrypted'') = None \<and>
   parse_whatsapp_content never_parses ''Messages are encrypted'' ''chat.txt'' = []"
  by code_simp

text \<open>
  Claim C6, amended. Line \<open>k + 1\<close> of a chat log, when it is non-empty after
  stripping and does not match the chat-line pattern, is appended after a newline to
  the body of the last record when the lines before it gave a record; when they gave
  none, it becomes a new record with sender \<open>Unknown\<close> and subject
  \<open>Unformatted Chat Line\<close>, unless it is the first line of the file, which is skipped.
  The parser's result is the records held after the last line.
\<close>

theorem unmatched_chat_line:
  assumes "k < length (splitlines file_content)"
    and "py_strip (splitlines file_content ! k) \<noteq> []"
    and "whatsapp_line_pattern_match (py_strip (splitlines file_content ! k)) = None"
  shows "records_after strptime file_content filename (Suc k) =
     (let line = py_strip (splitlines file_content ! k);
          before = records_after strptime file_content filename k
      in if before \<noteq> []
         then butlast before @ [(last before)\<lparr>Message := Message (last before) @ [CHR 0x0A] @ line\<rparr>]
         else if k = 0 then []
         else [\<lparr>Source = filename,
                Message_ID = filename @ ''_line_'' @ str_nat (Suc k) @ ''_unformatted'',
                Sender = ''Unknown'',
                Conversation_ID = chat_conversation_id filename,
                Timestamp = None,
                Subject = ''Unformatted Chat Line'',
                Message = line\<rparr>])
   \<and> parse_whatsapp_content strptime file_content filename =
       records_after strptime file_content filename (length (splitlines file_content))"
proof (rule conjI)
  show "records_after strptime file_content filename (Suc k) =
     (let line = py_strip (splitlines file_content ! k);
          before = records_after strptime file_content filename k
      in if before \<noteq> []
         then butlast before @ [(last before)\<lparr>Message := Message (last before) @ [CHR 0x0A] @ line\<rparr>]
         else if k = 0 then []
         else [\<lparr>Source = filename,
                Message_ID = filename @ ''_line_'' @ str_nat (Suc k) @ ''_unformatted'',
                Sender = ''Unknown'',
                Conversation_ID = chat_conversation_id filename,
                Timestamp = None,
                Subject = ''Unformatted Chat Line'',
                Message = line\<rparr>])"
    unfolding records_after_Suc [OF assms(1)]
    using assms(2,3) by (simp add: whatsapp_step_def Let_def)
  show "parse_whatsapp_content strptime file_content filename =
       records_after strptime file_content filename (length (splitlines file_content))"
    by (rule records_after_all)
qed

theorem unmatched_chat_line_witness:
  "records_after never_parses chat_with_continuation ''chat.txt'' (Suc 1) =
     [\<lparr>Source = ''chat.txt'', Message_ID = ''chat.txt_line_1'', Sender = ''Alice'',
       Conversation_ID = ''whatsapp_chat_chat_txt'', Timestamp = None,
       Subject = ''WhatsApp Chat Message'',
       Message = ''Hey Bob!'' @ [CHR 0x0A] @ ''see you soon''\<rparr>] \<and>
   records_after never_parses chat_with_late_notice ''chat.txt'' (Suc 1) =
     [\<lparr>Source = ''chat.txt'', Message_ID = ''chat.txt_line_2_unformatted'', Sender = ''Unknown'',
       Conversation_ID = ''whatsapp_chat_chat_txt'', Timestamp = None,
       Subject = ''Unformatted Chat Line'',
       Message = ''Messages are encrypted''\<rparr>]"
proof -
  have a: "1 < length (splitlines chat_with_continuation)"
    "py_strip (splitlines chat_with_continuation ! 1) \<noteq> []"
    "whatsapp_line_pattern_match (py_strip (splitlines chat_with_continuation ! 1)) = None"
    by code_simp+
  have b: "1 < length (splitlines chat_with_late_notice)"
    "py_strip (splitlines chat_with_late_notice ! 1) \<noteq> []"
    "whatsapp_line_pattern_match (py_strip (splitlines chat_with_late_notice ! 1)) = None"
    by code_simp+
  have ea: "(let line = py_strip (splitlines chat_with_continuation ! 1);
          before = records_after never_parses chat_with_continuation ''chat.txt'' 1
      in if before \<noteq> []
         then butlast before @ [(last before)\<lparr>Message := Message (last before) @ [CHR 0x0A] @ line\<rparr>]
         else if (1::nat) = 0 then []
         else [\<lparr>Source = ''chat.txt'',
                Message_ID = ''chat.txt'' @ ''_line_'' @ str_nat (Suc 1) @ ''_unformatted'',
                Sender = ''Unknown'',
                Conversation_ID = chat_conversation_id ''chat.txt'',
                Timestamp = None,
                Subject = ''Unformatted Chat Line'',
                Message = line\<rparr>]) =
     [\<lparr>Source = ''chat.txt'', Message_ID = ''chat.txt_line_1'', Sender = ''Alice'',
       Conversation_ID = ''whatsapp_chat_chat_txt'', Timestamp = None,
       Subject = ''WhatsApp Chat Message'',
       Message = ''Hey Bob!'' @ [CHR 0x0A] @ ''see you soon''\<rparr>]"
    by code_simp
  have eb: "(let line = py_strip (splitlines chat_with_late_notice ! 1);
          before = records_after never_parses chat_with_late_notice ''chat.txt'' 1
      in if before \<noteq> []
         then butlast before @ [(last before)\<lparr>Message := Message (last before) @ [CHR 0x0A] @ line\<rparr>]
         else if (1::nat) = 0 then []
         else [\<lparr>Source = ''chat.txt'',
                Message_ID = ''chat.txt'' @ ''_line_'' @ str_nat (Suc 1) @ ''_unformatted'',
                Sender = ''Unknown'',
                Conversation_ID = chat_conversation_id ''chat.txt'',
                Timestamp = None,
                Subject = ''Unformatted Chat Line'',
                Message = line\<rparr>]) =
     [\<lparr>Source = ''chat.txt'', Message_ID = ''chat.txt_line_2_unformatted'', Sender = ''Unknown'',
       Conversation_ID = ''whatsapp_chat_chat_txt'', Timestamp = None,
       Subject = ''Unformatted Chat Line'',
       Message = ''Messages are encrypted''\<rparr>]"
    by code_simp
  from unmatched_chat_line [OF a, of never_parses "''chat.txt''", THEN conjunct1] ea
  have ra: "records_after never_parses chat_with_continuation ''chat.txt'' (Suc 1) =
     [\<lparr>Source = ''chat.txt'', Message_ID = ''chat.txt_line_1'', Sender = ''Alice'',
       Conversation_ID = ''whatsapp_chat_chat_txt'', Timestamp = None,
       Subject = ''WhatsApp Chat Message'',
       Message = ''Hey Bob!'' @ [CHR 0x0A] @ ''see you soon''\<rparr>]"
    by (rule trans)
  from unmatched_chat_line [OF b, of never_parses "''chat.txt''", THEN conjunct1] eb
  have rb: "records_after never_parses chat_with_late_notice ''chat.txt'' (Suc 1) =
     [\<lparr>Source = ''chat.txt'', Message_ID = ''chat.txt_line_2_unformatted'', Sender = ''Unknown'',
       Conversation_ID = ''whatsapp_chat_chat_txt'', Timestamp = None,
       Subject = ''Unformatted Chat Line'',
       Message = ''Messages are encrypted''\<rparr>]"
    by (rule trans)
  from ra rb show ?thesis by (rule conjI)
qed

end
